theory Spec2Isabelle
  imports Complex_Main
begin

section \<open>Numbers and strings of the source\<close>

text \<open>
  The analysis core of \<^verbatim>\<open>backend/main.py\<close> computes with Python and numpy floats.
  A finite float is modelled by the real number it stands for, so rounding and overflow
  are left out; the comparisons of the source are then exact. Where the source itself
  produces a non-finite value from finite operands (a division by zero, a fractional
  power of a negative base), the model says so explicitly.
\<close>

text \<open>Python's \<^verbatim>\<open>sub in s\<close> on strings: \<^verbatim>\<open>sub\<close> occurs in \<^verbatim>\<open>s\<close> as a contiguous run.\<close>

fun starts_with :: "string \<Rightarrow> string \<Rightarrow> bool" where
  "starts_with [] s = True"
| "starts_with (c # cs) [] = False"
| "starts_with (c # cs) (d # ds) = (c = d \<and> starts_with cs ds)"

fun str_in :: "string \<Rightarrow> string \<Rightarrow> bool" where
  "str_in sub [] = (sub = [])"
| "str_in sub (d # ds) = (starts_with sub (d # ds) \<or> str_in sub ds)"

section \<open>Discount rate lookup (\<^verbatim>\<open>get_discount_rate\<close>, main.py 241-288)\<close>

text \<open>
  \<^verbatim>\<open>beta = float(beta) if beta else 1.0\<close>: a missing beta (\<open>None\<close>) and a beta of
  exactly zero are both falsy and are replaced by 1.0 before the table is read.
\<close>

definition effective_beta :: "real option \<Rightarrow> real" where
  "effective_beta beta = (case beta of None \<Rightarrow> 1.0 | Some v \<Rightarrow> (if v = 0 then 1.0 else v))"

definition china_rate :: "real \<Rightarrow> real" where
  "china_rate b =
     (if b < 0.80 then 0.085
      else if b \<ge> 1.6 then 0.145
      else if b < 0.85 then 0.085
      else if b < 0.95 then 0.093
      else if b < 1.05 then 0.100
      else if b < 1.15 then 0.108
      else if b < 1.25 then 0.115
      else if b < 1.35 then 0.122
      else if b < 1.45 then 0.130
      else 0.137)"

definition default_rate :: "real \<Rightarrow> real" where
  "default_rate b =
     (if b < 0.80 then 0.054
      else if b \<ge> 1.6 then 0.078
      else if b < 0.85 then 0.054
      else if b < 0.95 then 0.057
      else if b < 1.05 then 0.060
      else if b < 1.15 then 0.063
      else if b < 1.25 then 0.066
      else if b < 1.35 then 0.069
      else if b < 1.45 then 0.072
      else if b < 1.55 then 0.075
      else 0.078)"

definition get_discount_rate :: "real option \<Rightarrow> string \<Rightarrow> real" where
  "get_discount_rate beta country =
     (let b = effective_beta beta;
          is_china = str_in ''China'' country
      in if is_china then china_rate b else default_rate b)"

section \<open>Trend classifier (\<^verbatim>\<open>check_trend\<close>, main.py 872-942)\<close>

text \<open>
  A pandas Series is a list of (index label, value) pairs in stored order; the label is
  the period-end date as a day number and a missing value (NaN) is \<open>None\<close>.
\<close>

type_synonym series = "(int \<times> real option) list"

fun dropna :: "series \<Rightarrow> (int \<times> real) list" where
  "dropna [] = []"
| "dropna ((d, None) # s) = dropna s"
| "dropna ((d, Some v) # s) = (d, v) # dropna s"

text \<open>\<^verbatim>\<open>series.sort_index(ascending=False)\<close>: newest label first.\<close>

definition sort_index_desc :: "(int \<times> real) list \<Rightarrow> (int \<times> real) list" where
  "sort_index_desc s = sort_key (\<lambda>p. - fst p) s"

text \<open>
  \<^verbatim>\<open>slope, _ = np.polyfit(x, y, 1)\<close> with \<^verbatim>\<open>x = 0, 1, ..., n-1\<close> is a call into
  numpy: the slope it returns is a rounded least-squares slope, and on a flat or nearly
  flat series its sign is not that of the exact slope. The classifier is therefore
  modelled over whatever numpy returns: \<open>polyfit ys\<close> is the slope returned for the
  values \<open>ys\<close> (oldest first), and \<open>None\<close> stands for a call that raises (the
  source's \<^verbatim>\<open>except: pass\<close>) or returns NaN, which fails every comparison as well.
\<close>

type_synonym polyfit = "real list \<Rightarrow> real option"

text \<open>The loop of step 3: stop with False at the first step that dips below tolerance.\<close>

fun consistent_steps :: "real list \<Rightarrow> real \<Rightarrow> bool" where
  "consistent_steps (prev_v # curr_v # rest) tolerance =
     (if curr_v < prev_v * (1 - tolerance) then False
      else consistent_steps (curr_v # rest) tolerance)"
| "consistent_steps chronological tolerance = True"

definition check_trend :: "polyfit \<Rightarrow> series \<Rightarrow> string \<Rightarrow> real \<Rightarrow> bool" where
  "check_trend polyfit series0 trend_type tolerance =
     (let kept = dropna series0
      in if kept = [] \<or> length kept < 2 then False
         else
           (let values = map snd (sort_index_desc kept);
                newest = hd values;
                oldest = last values;
                y_rev = rev values
            in if trend_type = ''increasing'' then
                 (if newest > oldest then True
                  else if (case polyfit y_rev of None \<Rightarrow> False | Some slope \<Rightarrow> slope > 0)
                    then True
                  else consistent_steps y_rev tolerance)
               else if trend_type = ''stable_increasing'' then
                 (if newest \<ge> oldest * (1 - tolerance) then True
                  else if (case polyfit y_rev of None \<Rightarrow> False | Some slope \<Rightarrow> slope \<ge> 0)
                    then True
                  else False)
               else if trend_type = ''reducing_stable'' then
                 (if newest \<le> oldest * (1 + tolerance) then True
                  else if (case polyfit y_rev of None \<Rightarrow> False | Some slope \<Rightarrow> slope \<le> 0)
                    then True
                  else False)
               else False))"

text \<open>The default arguments \<^verbatim>\<open>trend_type="increasing", tolerance=0.05\<close>.\<close>

definition default_tolerance :: real where
  "default_tolerance = 0.05"

text \<open>The chronological values the classifier works on (oldest first).\<close>

definition chronological :: "series \<Rightarrow> real list" where
  "chronological s = rev (map snd (sort_index_desc (dropna s)))"

section \<open>Swing lows (\<^verbatim>\<open>get_swing_lows\<close>, main.py 90-100)\<close>

text \<open>
  \<open>lows\<close> is the column \<^verbatim>\<open>df['Low']\<close> by position. The inner loop over
  \<^verbatim>\<open>j in range(1, window + 1)\<close> breaks at the first neighbour that is lower.
\<close>

fun is_low_loop :: "real list \<Rightarrow> nat \<Rightarrow> nat list \<Rightarrow> bool" where
  "is_low_loop lows i [] = True"
| "is_low_loop lows i (j # js) =
     (if lows ! i > lows ! (i - j) \<or> lows ! i > lows ! (i + j) then False
      else is_low_loop lows i js)"

fun swing_loop :: "real list \<Rightarrow> nat \<Rightarrow> nat list \<Rightarrow> real list" where
  "swing_loop lows window [] = []"
| "swing_loop lows window (i # is) =
     (if is_low_loop lows i [1..<window + 1] then lows ! i # swing_loop lows window is
      else swing_loop lows window is)"

text \<open>
  \<^verbatim>\<open>range(window, len(df) - window)\<close> is empty when the end is not above the start;
  the truncating subtraction of \<open>nat\<close> gives the same empty range.
\<close>

definition get_swing_lows :: "real list \<Rightarrow> nat \<Rightarrow> real list" where
  "get_swing_lows lows window = swing_loop lows window [window..<length lows - window]"

section \<open>Support level merge (\<^verbatim>\<open>get_validated_support_levels\<close>, main.py 153-174)\<close>

record support_candidate =
  price :: real
  source :: string
  reason :: string
  score :: real

text \<open>
  The test \<^verbatim>\<open>abs(current_level['price'] - next_level['price']) / current_level['price'] <= 0.015\<close>.
  The prices are numpy floats, so a zero divisor raises nothing: the quotient is
  infinite or NaN and the comparison is false.
\<close>

definition within_band :: "support_candidate \<Rightarrow> support_candidate \<Rightarrow> bool" where
  "within_band current_level next_level =
     (if price current_level = 0 then False
      else \<bar>price current_level - price next_level\<bar> / price current_level \<le> 0.015)"

text \<open>
  The loop over \<^verbatim>\<open>support_candidates[1:]\<close>, with the three variables it updates:
  \<^verbatim>\<open>current_level\<close>, \<^verbatim>\<open>merged_group\<close> (written, never read) and \<^verbatim>\<open>unique_levels\<close>.
\<close>

fun merge_loop ::
  "support_candidate \<Rightarrow> support_candidate list \<Rightarrow> support_candidate list \<Rightarrow>
   support_candidate list \<Rightarrow> support_candidate \<times> support_candidate list \<times> support_candidate list"
where
  "merge_loop current_level merged_group unique_levels [] =
     (current_level, merged_group, unique_levels)"
| "merge_loop current_level merged_group unique_levels (next_level # rest) =
     (if within_band current_level next_level then
        merge_loop (if score next_level > score current_level then next_level else current_level)
          (merged_group @ [next_level]) unique_levels rest
      else
        merge_loop next_level [next_level] (unique_levels @ [current_level]) rest)"

text \<open>
  \<^verbatim>\<open>support_candidates.sort(key=lambda x: x['price'], reverse=True)\<close> is stable, also
  when reversed; then the merge and \<^verbatim>\<open>unique_levels[:5]\<close>.
\<close>

definition merge_support_levels :: "support_candidate list \<Rightarrow> support_candidate list" where
  "merge_support_levels support_candidates =
     (case sort_key (\<lambda>c. - price c) support_candidates of
        [] \<Rightarrow> []
      | first_level # rest \<Rightarrow>
          (case merge_loop first_level [first_level] [] rest of
             (current_level, merged_group, unique_levels) \<Rightarrow>
               take 5 (unique_levels @ [current_level])))"

text \<open>Two levels in output order: the later one is not higher and not within the band of
  the earlier one.\<close>

definition apart :: "support_candidate \<Rightarrow> support_candidate \<Rightarrow> bool" where
  "apart a b = (price b \<le> price a \<and> \<not> within_band a b)"

section \<open>Composite scorer (\<^verbatim>\<open>get_stock_data\<close>, main.py 869-1244)\<close>

text \<open>
  A criterion as the scorer reads it: its name and its status. The third key of the
  source's dictionaries, the display text \<^verbatim>\<open>value\<close>, is formatted from floats and is
  not read by the scoring loop; it is left out.
\<close>

record criterion =
  c_name :: string
  c_status :: string

definition pass_fail :: "bool \<Rightarrow> string" where
  "pass_fail b = (if b then ''Pass'' else ''Fail'')"

text \<open>
  What the criteria are computed from. The series go through \<open>check_trend\<close> (with
  the slopes numpy returns, \<open>polyfit\<close>, as for the classifier); the
  ratios are compared with their thresholds; \<open>trend_pass\<close> (lines 944-998),
  \<open>rev_ar_pass\<close> (1042-1054) and \<open>moat_pass\<close> (1103-1132) are the outcomes of their
  blocks; \<open>ccc_series\<close> is the series built at 1071-1089, empty when no year
  qualified.
\<close>

record scorer_inputs =
  trend_pass :: bool
  net_income_trend :: series
  op_income_trend :: series
  op_cash_flow_trend :: series
  revenue_trend :: series
  gross_margin_trend :: series
  net_margin_trend :: series
  roe_ttm :: real
  roic :: real
  rev_ar_pass :: bool
  has_physical_goods :: bool
  ccc_series :: series
  moat_pass :: bool
  debt_to_ebitda :: "real option"
  debt_servicing_ratio :: "real option"
  current_ratio :: "real option"
  is_reit :: bool
  gearing_ratio :: "real option"

text \<open>Lines 1002-1014: the operating income is looked at only when the net income fails.\<close>

definition income_criterion :: "polyfit \<Rightarrow> scorer_inputs \<Rightarrow> criterion list" where
  "income_criterion polyfit x =
     (let ni_pass = check_trend polyfit (net_income_trend x) ''increasing'' default_tolerance
      in if ni_pass then [\<lparr>c_name = ''Net Income Increasing'', c_status = ''Pass''\<rparr>]
         else
           (let oi_pass = check_trend polyfit (op_income_trend x) ''increasing'' default_tolerance
            in if oi_pass then [\<lparr>c_name = ''Operating Income Increasing'', c_status = ''Pass''\<rparr>]
               else [\<lparr>c_name = ''Net Income Increasing'', c_status = ''Fail''\<rparr>]))"

text \<open>Lines 1070-1091: the CCC criterion is appended for a company with inventory and a
  non-empty CCC series only.\<close>

definition ccc_criterion :: "polyfit \<Rightarrow> scorer_inputs \<Rightarrow> criterion list" where
  "ccc_criterion polyfit x =
     (if has_physical_goods x then
        (if ccc_series x \<noteq> [] then
           [\<lparr>c_name = ''CCC Stable/Reducing'',
             c_status = pass_fail (check_trend polyfit (ccc_series x) ''reducing_stable'' 0.1)\<rparr>]
         else [])
      else [])"

definition gearing_criterion :: "scorer_inputs \<Rightarrow> criterion list" where
  "gearing_criterion x =
     (if is_reit x then
        (let gr_val = (case gearing_ratio x of None \<Rightarrow> 100 | Some v \<Rightarrow> v)
         in [\<lparr>c_name = ''Gearing Ratio < 45%'', c_status = pass_fail (gr_val < 45)\<rparr>])
      else [])"

text \<open>The list \<^verbatim>\<open>score_criteria\<close> in the order of its appends.\<close>

definition score_criteria :: "polyfit \<Rightarrow> scorer_inputs \<Rightarrow> criterion list" where
  "score_criteria polyfit x =
     [\<lparr>c_name = ''Historical Trend (20Y)'', c_status = pass_fail (trend_pass x)\<rparr>]
     @ income_criterion polyfit x
     @ [\<lparr>c_name = ''Operating Cash Flow Increasing'',
          c_status = pass_fail (check_trend polyfit (op_cash_flow_trend x) ''increasing'' default_tolerance)\<rparr>,
        \<lparr>c_name = ''Revenue Increasing'',
          c_status = pass_fail (check_trend polyfit (revenue_trend x) ''increasing'' default_tolerance)\<rparr>,
        \<lparr>c_name = ''Gross Margin Stable/Increasing'',
          c_status = pass_fail (check_trend polyfit (gross_margin_trend x) ''stable_increasing'' 0.1)\<rparr>,
        \<lparr>c_name = ''Net Margin Stable/Increasing'',
          c_status = pass_fail (check_trend polyfit (net_margin_trend x) ''stable_increasing'' 0.1)\<rparr>,
        \<lparr>c_name = ''ROE > 12-15%'', c_status = pass_fail (roe_ttm x \<ge> 0.12)\<rparr>,
        \<lparr>c_name = ''ROIC > 12-15%'', c_status = pass_fail (roic x \<ge> 0.12)\<rparr>,
        \<lparr>c_name = ''Revenue > AR or Growing Faster'', c_status = pass_fail (rev_ar_pass x)\<rparr>]
     @ ccc_criterion polyfit x
     @ [\<lparr>c_name = ''Economic Moat'', c_status = pass_fail (moat_pass x)\<rparr>,
        \<lparr>c_name = ''Debt/EBITDA < 3'',
          c_status = pass_fail ((case debt_to_ebitda x of None \<Rightarrow> 100 | Some v \<Rightarrow> v) < 3)\<rparr>,
        \<lparr>c_name = ''Debt Servicing Ratio < 30%'',
          c_status = pass_fail ((case debt_servicing_ratio x of None \<Rightarrow> 100 | Some v \<Rightarrow> v) < 30)\<rparr>,
        \<lparr>c_name = ''Current Ratio > 1.5'',
          c_status = pass_fail ((case current_ratio x of None \<Rightarrow> 0 | Some v \<Rightarrow> v) > 1.5)\<rparr>]
     @ gearing_criterion x"

text \<open>The three weight dictionaries, as association lists.\<close>

definition weights_ccc :: "(string \<times> int) list" where
  "weights_ccc =
     [(''Historical Trend (20Y)'', 15),
      (''Net Income Increasing'', 5), (''Operating Income Increasing'', 5),
      (''Operating Cash Flow Increasing'', 5),
      (''Revenue Increasing'', 10),
      (''Gross Margin Stable/Increasing'', 10),
      (''Net Margin Stable/Increasing'', 5),
      (''ROE > 12-15%'', 5),
      (''ROIC > 12-15%'', 15),
      (''Revenue > AR or Growing Faster'', 1),
      (''CCC Stable/Reducing'', 3),
      (''Economic Moat'', 20),
      (''Debt/EBITDA < 3'', 5),
      (''Debt Servicing Ratio < 30%'', 1),
      (''Current Ratio > 1.5'', 5)]"

definition weights_reit :: "(string \<times> int) list" where
  "weights_reit =
     [(''Historical Trend (20Y)'', 10),
      (''Net Income Increasing'', 3), (''Operating Income Increasing'', 3),
      (''Operating Cash Flow Increasing'', 3),
      (''Revenue Increasing'', 3),
      (''Gross Margin Stable/Increasing'', 5),
      (''Net Margin Stable/Increasing'', 5),
      (''ROE > 12-15%'', 10),
      (''ROIC > 12-15%'', 15),
      (''Revenue > AR or Growing Faster'', 4),
      (''Economic Moat'', 5),
      (''Debt/EBITDA < 3'', 15),
      (''Debt Servicing Ratio < 30%'', 15),
      (''Current Ratio > 1.5'', 5),
      (''Gearing Ratio < 45%'', 5)]"

definition weights_standard :: "(string \<times> int) list" where
  "weights_standard =
     [(''Historical Trend (20Y)'', 5),
      (''Net Income Increasing'', 10), (''Operating Income Increasing'', 10),
      (''Operating Cash Flow Increasing'', 10),
      (''Revenue Increasing'', 5),
      (''Gross Margin Stable/Increasing'', 10),
      (''Net Margin Stable/Increasing'', 5),
      (''ROE > 12-15%'', 15),
      (''ROIC > 12-15%'', 15),
      (''Revenue > AR or Growing Faster'', 5),
      (''Economic Moat'', 20),
      (''Debt/EBITDA < 3'', 5),
      (''Debt Servicing Ratio < 30%'', 2),
      (''Current Ratio > 1.5'', 3)]"

definition current_weights :: "scorer_inputs \<Rightarrow> (string \<times> int) list" where
  "current_weights x =
     (if is_reit x then weights_reit
      else if has_physical_goods x then weights_ccc
      else weights_standard)"

text \<open>\<^verbatim>\<open>current_weights.get(lookup_name, 0)\<close>.\<close>

definition weight_get :: "(string \<times> int) list \<Rightarrow> string \<Rightarrow> int" where
  "weight_get weights k = (case map_of weights k of None \<Rightarrow> 0 | Some w \<Rightarrow> w)"

text \<open>The three successive \<^verbatim>\<open>if ... in name: lookup_name = ...\<close> statements; a later
  one overwrites an earlier one.\<close>

definition lookup_name :: "string \<Rightarrow> string" where
  "lookup_name n =
     (let l0 = n;
          l1 = (if str_in ''Historical Trend'' n then ''Historical Trend (20Y)'' else l0);
          l2 = (if str_in ''Net Income Increasing'' n then ''Net Income Increasing'' else l1);
          l3 = (if str_in ''Operating Income Increasing'' n then ''Operating Income Increasing'' else l2)
      in l3)"

text \<open>The scoring loop over the criteria, carrying \<open>(total_score, max_score)\<close>.\<close>

fun score_loop :: "(string \<times> int) list \<Rightarrow> criterion list \<Rightarrow> int \<times> int \<Rightarrow> int \<times> int" where
  "score_loop weights [] (total_score, max_score) = (total_score, max_score)"
| "score_loop weights (c # cs) (total_score, max_score) =
     (let weight = weight_get weights (lookup_name (c_name c))
      in score_loop weights cs
           (if c_status c = ''Pass'' then total_score + weight else total_score,
            max_score + weight))"

definition composite_score :: "polyfit \<Rightarrow> scorer_inputs \<Rightarrow> int \<times> int" where
  "composite_score polyfit x =
     score_loop (current_weights x) (score_criteria polyfit x) (0, 0)"

section \<open>Floats that need not be finite\<close>

text \<open>
  The inputs of the valuation are finite numbers. Its intermediate results need not be:
  numpy divides by zero without raising (the quotient is infinite, or NaN for 0/0), a
  fractional power of a negative numpy float is NaN, and a growth estimate may parse to
  any float. Such values are \<open>pyfloat\<close>s, with the IEEE rules for the operations the
  source applies to them (signed zeros are not told apart).
\<close>

datatype pyfloat = Fin real | PInf | NInf | NaN

fun pf_gt :: "pyfloat \<Rightarrow> pyfloat \<Rightarrow> bool" where
  "pf_gt NaN b = False"
| "pf_gt a NaN = False"
| "pf_gt (Fin a) (Fin b) = (a > b)"
| "pf_gt PInf PInf = False"
| "pf_gt PInf b = True"
| "pf_gt a PInf = False"
| "pf_gt NInf b = False"
| "pf_gt a NInf = True"

definition pf_lt :: "pyfloat \<Rightarrow> pyfloat \<Rightarrow> bool" where
  "pf_lt a b = pf_gt b a"

text \<open>Python's built-in \<^verbatim>\<open>max(a, b)\<close> and \<^verbatim>\<open>min(a, b)\<close>: the first argument is kept
  unless the second compares strictly beyond it, so a NaN in first place is kept.\<close>

definition py_max :: "pyfloat \<Rightarrow> pyfloat \<Rightarrow> pyfloat" where
  "py_max a b = (if pf_gt b a then b else a)"

definition py_min :: "pyfloat \<Rightarrow> pyfloat \<Rightarrow> pyfloat" where
  "py_min a b = (if pf_lt b a then b else a)"

fun pf_neg :: "pyfloat \<Rightarrow> pyfloat" where
  "pf_neg (Fin a) = Fin (- a)"
| "pf_neg PInf = NInf"
| "pf_neg NInf = PInf"
| "pf_neg NaN = NaN"

fun pf_add :: "pyfloat \<Rightarrow> pyfloat \<Rightarrow> pyfloat" where
  "pf_add NaN b = NaN"
| "pf_add a NaN = NaN"
| "pf_add (Fin a) (Fin b) = Fin (a + b)"
| "pf_add PInf NInf = NaN"
| "pf_add NInf PInf = NaN"
| "pf_add PInf b = PInf"
| "pf_add a PInf = PInf"
| "pf_add NInf b = NInf"
| "pf_add a NInf = NInf"

definition pf_sub :: "pyfloat \<Rightarrow> pyfloat \<Rightarrow> pyfloat" where
  "pf_sub a b = pf_add a (pf_neg b)"

fun pf_mul :: "pyfloat \<Rightarrow> pyfloat \<Rightarrow> pyfloat" where
  "pf_mul NaN b = NaN"
| "pf_mul a NaN = NaN"
| "pf_mul (Fin a) (Fin b) = Fin (a * b)"
| "pf_mul (Fin a) PInf = (if a > 0 then PInf else if a < 0 then NInf else NaN)"
| "pf_mul (Fin a) NInf = (if a > 0 then NInf else if a < 0 then PInf else NaN)"
| "pf_mul PInf (Fin b) = (if b > 0 then PInf else if b < 0 then NInf else NaN)"
| "pf_mul NInf (Fin b) = (if b > 0 then NInf else if b < 0 then PInf else NaN)"
| "pf_mul PInf PInf = PInf"
| "pf_mul PInf NInf = NInf"
| "pf_mul NInf PInf = NInf"
| "pf_mul NInf NInf = PInf"

fun pf_div :: "pyfloat \<Rightarrow> pyfloat \<Rightarrow> pyfloat" where
  "pf_div NaN b = NaN"
| "pf_div a NaN = NaN"
| "pf_div (Fin a) (Fin b) =
     (if b = 0 then (if a = 0 then NaN else if a > 0 then PInf else NInf) else Fin (a / b))"
| "pf_div (Fin a) PInf = Fin 0"
| "pf_div (Fin a) NInf = Fin 0"
| "pf_div PInf (Fin b) = (if b < 0 then NInf else PInf)"
| "pf_div NInf (Fin b) = (if b < 0 then PInf else NInf)"
| "pf_div PInf b = NaN"
| "pf_div NInf b = NaN"

text \<open>
  \<^verbatim>\<open>q ** (1/n)\<close> on a numpy float, for the non-integer exponents \<open>1/n\<close> with
  \<open>n \<ge> 2\<close> that the source uses: NaN for a negative base, and plus infinity for either
  infinity.
\<close>

fun pf_root :: "pyfloat \<Rightarrow> nat \<Rightarrow> pyfloat" where
  "pf_root (Fin q) n = (if q < 0 then NaN else Fin (q powr (1 / real n)))"
| "pf_root PInf n = PInf"
| "pf_root NInf n = PInf"
| "pf_root NaN n = NaN"

section \<open>Intrinsic value (\<^verbatim>\<open>calculate_intrinsic_value\<close>, main.py 180-459)\<close>

text \<open>
  The keys of \<^verbatim>\<open>info\<close> that the function reads; \<open>None\<close> is an absent key, and a
  present key holds a value of its type.
\<close>

record info =
  info_currentPrice :: "real option"
  info_sharesOutstanding :: "real option"
  info_sector :: "string option"
  info_industry :: "string option"
  info_country :: "string option"
  info_bookValue :: "real option"
  info_priceToBook :: "real option"

text \<open>
  A statement table (\<^verbatim>\<open>balance_sheet\<close>, \<^verbatim>\<open>cashflow\<close>) as the function reads it: the
  row labels with the value of the newest column (\<^verbatim>\<open>.loc[label].iloc[0]\<close>); the empty
  table is \<open>[]\<close>.
\<close>

type_synonym frame = "(string \<times> real) list"

text \<open>
  A growth estimate: its period label, and what
  \<^verbatim>\<open>float(str(est.get("stockTrend", "0")).replace("%", ""))\<close> gives, \<open>None\<close> when
  \<^verbatim>\<open>float\<close> raises.
\<close>

record growth_estimate =
  period :: string
  stock_trend :: "pyfloat option"

text \<open>A value of the \<^verbatim>\<open>assumptions\<close> dictionary: the number an f-string formats (the
  formatting itself is left out), or a literal text.\<close>

datatype shown = Number pyfloat | Text string

record valuation =
  res_method :: string
  res_intrinsicValue :: pyfloat
  res_currentPrice :: "real option"
  res_differencePercent :: pyfloat
  res_status :: string
  res_assumptions :: "(string \<times> shown) list"

datatype py_error = TypeError

text \<open>The two Error dictionaries (lines 185 and 459) differ in \<^verbatim>\<open>method\<close> only; neither
  has the key \<^verbatim>\<open>currentPrice\<close>.\<close>

definition error_result :: "string \<Rightarrow> valuation" where
  "error_result m =
     \<lparr>res_method = m, res_intrinsicValue = Fin 0, res_currentPrice = None,
      res_differencePercent = Fin 0, res_status = ''Error'', res_assumptions = []\<rparr>"

subsection \<open>1. Company type and method (lines 187-237)\<close>

fun count_increases :: "real list \<Rightarrow> nat" where
  "count_increases (newer # older # rest) =
     (if newer \<ge> older * 0.9 then 1 else 0) + count_increases (older # rest)"
| "count_increases short = 0"

definition is_consistent :: "real list \<Rightarrow> bool" where
  "is_consistent series =
     (if length series < 3 then False
      else count_increases series \<ge> length series - 2)"

definition is_financial_company :: "info \<Rightarrow> bool" where
  "is_financial_company info =
     (let sector = (case info_sector info of None \<Rightarrow> [] | Some t \<Rightarrow> t);
          industry = (case info_industry info of None \<Rightarrow> [] | Some t \<Rightarrow> t)
      in str_in ''Financial'' sector \<or> str_in ''Bank'' industry \<or> str_in ''Insurance'' industry)"

definition rev_cagr_of :: "real list \<Rightarrow> pyfloat" where
  "rev_cagr_of revenue_series =
     (if length revenue_series \<ge> 3 then
        pf_sub (pf_root (pf_div (Fin (hd revenue_series)) (Fin (last revenue_series)))
                  (length revenue_series)) (Fin 1)
      else Fin 0)"


text \<open>\<^verbatim>\<open>series.iloc[0] if not series.empty else 0\<close>.\<close>

definition current_of :: "real list \<Rightarrow> real" where
  "current_of series = (case series of [] \<Rightarrow> 0 | newest # older \<Rightarrow> newest)"

text \<open>Lines 216-237, on the values computed before them.\<close>

definition method_of ::
  "bool \<Rightarrow> bool \<Rightarrow> bool \<Rightarrow> bool \<Rightarrow> pyfloat \<Rightarrow> real \<Rightarrow> real \<Rightarrow> string" where
  "method_of is_financial rev_consistent ni_consistent ocf_consistent rev_cagr current_ni current_ocf =
     (let is_speculative =
            (pf_gt rev_cagr (Fin 0.15) \<and> (current_ni < 0 \<or> current_ocf < 0) \<and> \<not> is_financial)
      in if is_financial then ''Mean Price-to-Book (PB)''
         else if is_speculative then ''Price to Sales Growth (PSG)''
         else if rev_consistent \<and> ni_consistent \<and> ocf_consistent then
                (if current_ocf > 1.5 * current_ni then ''Discounted Free Cash Flow (DFCF)''
                 else ''Discounted Operating Cash Flow (DOCF)'')
         else if rev_consistent \<and> ni_consistent then ''Discounted Net Income (DNI)''
         else if current_ocf > 0 then ''Discounted Operating Cash Flow (DOCF)''
         else ''Discounted Net Income (DNI)'')"

definition select_method :: "info \<Rightarrow> real list \<Rightarrow> real list \<Rightarrow> real list \<Rightarrow> string" where
  "select_method info revenue_series net_income_series op_cash_flow_series =
     method_of (is_financial_company info)
       (is_consistent revenue_series) (is_consistent net_income_series)
       (is_consistent op_cash_flow_series)
       (rev_cagr_of revenue_series)
       (current_of net_income_series) (current_of op_cash_flow_series)"

subsection \<open>2. Common inputs (lines 239-333)\<close>

definition country_of :: "info \<Rightarrow> string" where
  "country_of info = (case info_country info of None \<Rightarrow> ''United States'' | Some t \<Rightarrow> t)"

text \<open>\<^verbatim>\<open>beta_val = beta if beta else 1.0\<close>, then the lookup.\<close>

definition discount_rate_of :: "real option \<Rightarrow> string \<Rightarrow> real" where
  "discount_rate_of beta country =
     (let beta_val = (case beta of None \<Rightarrow> 1.0 | Some b \<Rightarrow> (if b = 0 then 1.0 else b))
      in get_discount_rate (Some beta_val) country)"

text \<open>The loop over the estimates: the first one labelled Next 5 Years whose trend parses
  sets the rate and breaks; one that does not parse is passed over.\<close>

fun estimate_loop :: "growth_estimate list \<Rightarrow> pyfloat \<Rightarrow> pyfloat" where
  "estimate_loop [] growth_rate_1_5 = growth_rate_1_5"
| "estimate_loop (est # rest) growth_rate_1_5 =
     (if str_in ''Next 5 Years'' (period est) then
        (case stock_trend est of
           Some parsed \<Rightarrow> pf_div parsed (Fin 100)
         | None \<Rightarrow> estimate_loop rest growth_rate_1_5)
      else estimate_loop rest growth_rate_1_5)"

text \<open>Lines 295-313: the rate before it is capped.\<close>

definition raw_growth_rate_1_5 :: "growth_estimate list \<Rightarrow> real list \<Rightarrow> pyfloat" where
  "raw_growth_rate_1_5 growth_estimates net_income_series =
     (if growth_estimates \<noteq> [] then estimate_loop growth_estimates (Fin 0.05)
      else if net_income_series \<noteq> [] \<and> length net_income_series > 3 then
        (let start = \<bar>last net_income_series\<bar>;
             end_v = hd net_income_series
         in if start > 0 then
              pf_sub (pf_root (pf_div (Fin end_v) (Fin start)) (length net_income_series)) (Fin 1)
            else Fin 0.05)
      else Fin 0.05)"

text \<open>Line 316: \<^verbatim>\<open>min(max(growth_rate_1_5, -0.10), 0.30)\<close>.\<close>

definition growth_rate_1_5_of :: "growth_estimate list \<Rightarrow> real list \<Rightarrow> pyfloat" where
  "growth_rate_1_5_of growth_estimates net_income_series =
     py_min (py_max (raw_growth_rate_1_5 growth_estimates net_income_series) (Fin (- 0.10)))
       (Fin 0.30)"

definition growth_rate_6_10_of :: "pyfloat \<Rightarrow> pyfloat" where
  "growth_rate_6_10_of growth_rate_1_5 = py_min growth_rate_1_5 (Fin 0.15)"

definition growth_rate_11_20_of :: "string \<Rightarrow> real" where
  "growth_rate_11_20_of country = (if str_in ''China'' country then 0.06 else 0.04)"

definition total_debt_of :: "frame \<Rightarrow> real" where
  "total_debt_of balance_sheet =
     (if balance_sheet \<noteq> [] then
        (case map_of balance_sheet ''Total Debt'' of None \<Rightarrow> 0 | Some v \<Rightarrow> v)
      else 0)"

definition cash_and_equivalents_of :: "frame \<Rightarrow> real" where
  "cash_and_equivalents_of balance_sheet =
     (if balance_sheet \<noteq> [] then
        (case map_of balance_sheet ''Cash And Cash Equivalents'' of
           Some v \<Rightarrow> v
         | None \<Rightarrow>
             (case map_of balance_sheet ''Cash Cash Equivalents And Short Term Investments'' of
                Some v \<Rightarrow> v
              | None \<Rightarrow> 0))
      else 0)"

subsection \<open>3. The three calculations (lines 335-437)\<close>

text \<open>Price to book. With no book value in \<^verbatim>\<open>info\<close> and an empty balance sheet,
  \<^verbatim>\<open>book_value * mean_pb\<close> multiplies \<^verbatim>\<open>None\<close> and raises.\<close>

definition pb_valuation ::
  "info \<Rightarrow> frame \<Rightarrow> real \<Rightarrow> py_error + pyfloat \<times> (string \<times> shown) list" where
  "pb_valuation info balance_sheet shares_outstanding =
     (let book_value0 = info_bookValue info;
          book_value =
            (if (book_value0 = None \<or> book_value0 = Some 0) \<and> balance_sheet \<noteq> [] then
               (let equity = (case map_of balance_sheet ''Stockholders Equity'' of
                                None \<Rightarrow> 0 | Some v \<Rightarrow> v)
                in Some (equity / shares_outstanding))
             else book_value0);
          mean_pb = (case info_priceToBook info of
                       None \<Rightarrow> 1.5 | Some current_pb \<Rightarrow> (if current_pb = 0 then 1.5 else current_pb))
      in case book_value of
           None \<Rightarrow> Inl TypeError
         | Some bv \<Rightarrow>
             Inr (Fin (bv * mean_pb),
                  [(''Current Book Value Per Share'', Number (Fin bv)),
                   (''Mean PB Ratio'', Number (Fin mean_pb))]))"

definition psg_valuation ::
  "real list \<Rightarrow> real \<Rightarrow> pyfloat \<Rightarrow> pyfloat \<times> (string \<times> shown) list" where
  "psg_valuation revenue_series shares_outstanding growth_rate_1_5 =
     (let sales_per_share =
            (if revenue_series \<noteq> [] then hd revenue_series / shares_outstanding else 0);
          growth_rate_whole = pf_mul growth_rate_1_5 (Fin 100)
      in (pf_mul (pf_mul (Fin sales_per_share) growth_rate_whole) (Fin 0.20),
          [(''Sales Per Share'', Number (Fin sales_per_share)),
           (''Projected Growth Rate'', Number growth_rate_whole),
           (''Fair PSG Constant'', Text ''0.20'')]))"

text \<open>\<^verbatim>\<open>for i in range(n): current_val *= (1 + rate); future_values.append(current_val)\<close>:
  the values appended, the last of which is the new \<^verbatim>\<open>current_val\<close>.\<close>

fun grow :: "nat \<Rightarrow> pyfloat \<Rightarrow> pyfloat \<Rightarrow> pyfloat list" where
  "grow 0 current_val rate = []"
| "grow (Suc n) current_val rate =
     (let next_val = pf_mul current_val (pf_add (Fin 1) rate)
      in next_val # grow n next_val rate)"

definition last_or :: "pyfloat \<Rightarrow> pyfloat list \<Rightarrow> pyfloat" where
  "last_or current_val appended = (if appended = [] then current_val else last appended)"

text \<open>The discounting loop over \<^verbatim>\<open>enumerate(future_values)\<close>, from index \<open>i\<close> on.\<close>

fun discount_loop :: "real \<Rightarrow> nat \<Rightarrow> pyfloat list \<Rightarrow> pyfloat \<Rightarrow> pyfloat" where
  "discount_loop discount_rate i [] present_value_sum = present_value_sum"
| "discount_loop discount_rate i (val # rest) present_value_sum =
     (let pv = pf_div val (Fin ((1 + discount_rate) ^ (i + 1)))
      in discount_loop discount_rate (i + 1) rest (pf_add present_value_sum pv))"

definition capex_of :: "frame \<Rightarrow> real" where
  "capex_of cashflow =
     (case map_of cashflow ''Capital Expenditure'' of
        Some v \<Rightarrow> \<bar>v\<bar>
      | None \<Rightarrow>
          (case map_of cashflow ''Capital Expenditures'' of
             Some v \<Rightarrow> \<bar>v\<bar>
           | None \<Rightarrow> 0))"

definition base_metric :: "string \<Rightarrow> frame \<Rightarrow> real \<Rightarrow> real \<Rightarrow> real \<times> string" where
  "base_metric method_name cashflow current_ni current_ocf =
     (if str_in ''Free Cash Flow'' method_name then
        (current_ocf - capex_of cashflow, ''Free Cash Flow'')
      else if str_in ''Operating Cash Flow'' method_name then (current_ocf, ''Operating Cash Flow'')
      else if str_in ''Net Income'' method_name then (current_ni, ''Net Income'')
      else (0, []))"

definition dcf_valuation ::
  "string \<Rightarrow> frame \<Rightarrow> real \<Rightarrow> real \<Rightarrow> pyfloat \<Rightarrow> pyfloat \<Rightarrow> real \<Rightarrow> real \<Rightarrow> real \<Rightarrow> real
     \<Rightarrow> real \<Rightarrow> pyfloat \<times> (string \<times> shown) list" where
  "dcf_valuation method_name cashflow current_ni current_ocf growth_rate_1_5 growth_rate_6_10
       growth_rate_11_20 discount_rate cash_and_equivalents total_debt shares_outstanding =
     (case base_metric method_name cashflow current_ni current_ocf of
        (base_value, metric_name) \<Rightarrow>
          (let years_1_5 = grow 5 (Fin base_value) growth_rate_1_5;
               val_5 = last_or (Fin base_value) years_1_5;
               years_6_10 = grow 5 val_5 growth_rate_6_10;
               val_10 = last_or val_5 years_6_10;
               years_11_20 = grow 10 val_10 (Fin growth_rate_11_20);
               future_values = years_1_5 @ years_6_10 @ years_11_20;
               present_value_sum = discount_loop discount_rate 0 future_values (Fin 0);
               equity_value =
                 pf_sub (pf_add present_value_sum (Fin cash_and_equivalents)) (Fin total_debt);
               intrinsic_value = pf_div equity_value (Fin shares_outstanding)
           in (intrinsic_value,
               [(''Current '' @ metric_name, Number (Fin (base_value / 10 ^ 9))),
                (''Growth Rate (Yr 1-5)'', Number (pf_mul growth_rate_1_5 (Fin 100))),
                (''Growth Rate (Yr 6-10)'', Number (pf_mul growth_rate_6_10 (Fin 100))),
                (''Growth Rate (Yr 11-20)'', Number (Fin (growth_rate_11_20 * 100))),
                (''Discount Rate'', Number (Fin (discount_rate * 100))),
                (''Total Debt'', Number (Fin (total_debt / 10 ^ 9))),
                (''Cash & Equivalents'', Number (Fin (cash_and_equivalents / 10 ^ 9))),
                (''Shares Outstanding'', Number (Fin (shares_outstanding / 10 ^ 9)))])))"

subsection \<open>Finalize (lines 439-455) and the whole function\<close>

definition finalize ::
  "string \<Rightarrow> real \<Rightarrow> pyfloat \<Rightarrow> (string \<times> shown) list \<Rightarrow> valuation" where
  "finalize method_name current_price intrinsic_value assumptions =
     (let diff_percent =
            (if intrinsic_value \<noteq> Fin 0 then
               pf_sub (pf_div (Fin current_price) intrinsic_value) (Fin 1)
             else Fin 0);
          status =
            (if pf_gt diff_percent (Fin 0.15) then ''Overvalued''
             else if pf_lt diff_percent (Fin (- 0.15)) then ''Undervalued''
             else ''Fairly Valued'')
      in \<lparr>res_method = method_name, res_intrinsicValue = intrinsic_value,
          res_currentPrice = Some current_price, res_differencePercent = diff_percent,
          res_status = status, res_assumptions = assumptions\<rparr>)"

text \<open>
  The body of the \<^verbatim>\<open>try\<close>: \<open>Inl\<close> is an exception raised in it. The guard of line 184
  tests truthiness: a missing price is 0, a missing share count is 1, and only a zero
  is falsy.
\<close>

definition calculate_body ::
  "string \<Rightarrow> info \<Rightarrow> frame \<Rightarrow> frame \<Rightarrow> frame \<Rightarrow> real list \<Rightarrow> real list \<Rightarrow> real list
     \<Rightarrow> growth_estimate list \<Rightarrow> real option \<Rightarrow> py_error + valuation" where
  "calculate_body ticker info financials balance_sheet cashflow revenue_series net_income_series
       op_cash_flow_series growth_estimates beta =
     (let current_price = (case info_currentPrice info of None \<Rightarrow> 0 | Some v \<Rightarrow> v);
          shares_outstanding = (case info_sharesOutstanding info of None \<Rightarrow> 1 | Some v \<Rightarrow> v)
      in if current_price = 0 \<or> shares_outstanding = 0 then Inr (error_result ''N/A'')
         else
           (let country = country_of info;
                method_name = select_method info revenue_series net_income_series op_cash_flow_series;
                discount_rate = discount_rate_of beta country;
                growth_rate_1_5 = growth_rate_1_5_of growth_estimates net_income_series;
                growth_rate_6_10 = growth_rate_6_10_of growth_rate_1_5;
                growth_rate_11_20 = growth_rate_11_20_of country;
                total_debt = total_debt_of balance_sheet;
                cash_and_equivalents = cash_and_equivalents_of balance_sheet
            in if method_name = ''Mean Price-to-Book (PB)'' then
                 (case pb_valuation info balance_sheet shares_outstanding of
                    Inl e \<Rightarrow> Inl e
                  | Inr (intrinsic_value, assumptions) \<Rightarrow>
                      Inr (finalize method_name current_price intrinsic_value assumptions))
               else if method_name = ''Price to Sales Growth (PSG)'' then
                 (case psg_valuation revenue_series shares_outstanding growth_rate_1_5 of
                    (intrinsic_value, assumptions) \<Rightarrow>
                      Inr (finalize method_name current_price intrinsic_value assumptions))
               else
                 (case dcf_valuation method_name cashflow (current_of net_income_series)
                         (current_of op_cash_flow_series) growth_rate_1_5 growth_rate_6_10
                         growth_rate_11_20 discount_rate cash_and_equivalents total_debt
                         shares_outstanding of
                    (intrinsic_value, assumptions) \<Rightarrow>
                      Inr (finalize method_name current_price intrinsic_value assumptions))))"

text \<open>\<^verbatim>\<open>except Exception\<close>: whatever the body raises becomes the second Error dictionary.\<close>

definition calculate_intrinsic_value ::
  "string \<Rightarrow> info \<Rightarrow> frame \<Rightarrow> frame \<Rightarrow> frame \<Rightarrow> real list \<Rightarrow> real list \<Rightarrow> real list
     \<Rightarrow> growth_estimate list \<Rightarrow> real option \<Rightarrow> valuation" where
  "calculate_intrinsic_value ticker info financials balance_sheet cashflow revenue_series
       net_income_series op_cash_flow_series growth_estimates beta =
     (case calculate_body ticker info financials balance_sheet cashflow revenue_series
             net_income_series op_cash_flow_series growth_estimates beta of
        Inl e \<Rightarrow> error_result ''Error''
      | Inr result \<Rightarrow> result)"

text \<open>Every name the scorer gives to a criterion.\<close>

definition criterion_names :: "string list" where
  "criterion_names =
     [''Historical Trend (20Y)'', ''Net Income Increasing'', ''Operating Income Increasing'',
      ''Operating Cash Flow Increasing'', ''Revenue Increasing'',
      ''Gross Margin Stable/Increasing'', ''Net Margin Stable/Increasing'',
      ''ROE > 12-15%'', ''ROIC > 12-15%'', ''Revenue > AR or Growing Faster'',
      ''CCC Stable/Reducing'', ''Economic Moat'', ''Debt/EBITDA < 3'',
      ''Debt Servicing Ratio < 30%'', ''Current Ratio > 1.5'', ''Gearing Ratio < 45%'']"

section \<open>Properties of the discount rate lookup\<close>

lemma china_rate_mono: "lo \<le> hi \<Longrightarrow> china_rate lo \<le> china_rate hi"
  unfolding china_rate_def by (simp split: if_splits)

lemma default_rate_mono: "lo \<le> hi \<Longrightarrow> default_rate lo \<le> default_rate hi"
  unfolding default_rate_def by (simp split: if_splits)

lemma china_rate_top: "china_rate b \<le> 0.145"
  unfolding china_rate_def by simp

lemma default_rate_top: "default_rate b \<le> 0.078"
  unfolding default_rate_def by simp

text \<open>
  C5, as the claim states it, fails: a beta of exactly 0 is falsy, so it is looked up as
  1.0 and receives 6.0%, more than the 5.4% of beta 0.5.
\<close>

theorem get_discount_rate_zero_beta_not_monotone:
  "(0::real) \<le> 0.5 \<and>
   \<not> get_discount_rate (Some 0) ''United States'' \<le> get_discount_rate (Some 0.5) ''United States''"
  by (simp add: get_discount_rate_def effective_beta_def default_rate_def)

text \<open>
  C5 (amended): over betas other than 0 the discount rate is monotonically
  non-decreasing in beta for either table; every beta of 1.6 or more receives the top
  rate of its table (14.5% for China, 7.8% otherwise), and no beta, given or missing,
  receives more than that.
\<close>

theorem get_discount_rate_monotone:
  "(lo \<noteq> 0 \<and> hi \<noteq> 0 \<and> lo \<le> hi \<longrightarrow>
      get_discount_rate (Some lo) country \<le> get_discount_rate (Some hi) country) \<and>
   (1.6 \<le> b \<longrightarrow>
      get_discount_rate (Some b) country = (if str_in ''China'' country then 0.145 else 0.078)) \<and>
   get_discount_rate beta country \<le> (if str_in ''China'' country then 0.145 else 0.078)"
  by (simp add: get_discount_rate_def effective_beta_def china_rate_mono default_rate_mono
      china_rate_top default_rate_top)
    (simp add: china_rate_def default_rate_def)

theorem get_discount_rate_monotone_witness:
  "get_discount_rate (Some 0.9) ''China'' \<le> get_discount_rate (Some 1.2) ''China'' \<and>
   get_discount_rate (Some 0.9) ''China'' = 0.093 \<and>
   get_discount_rate (Some 1.2) ''China'' = 0.115 \<and>
   get_discount_rate (Some 1.7) ''China'' = 0.145"
  using get_discount_rate_monotone [where lo = "0.9" and hi = "1.2" and b = "1.7"
      and country = "''China''" and beta = None]
  by (simp add: get_discount_rate_def effective_beta_def china_rate_def)

section \<open>Properties of the trend classifier\<close>

text \<open>
  C8: a series with fewer than two points left after the missing values are dropped
  fails each of the three trend kinds, whatever the tolerance and whatever slope numpy
  would report.
\<close>

theorem check_trend_short_series:
  "length (dropna s) < 2 \<Longrightarrow>
     \<not> check_trend polyfit s ''increasing'' tolerance \<and>
     \<not> check_trend polyfit s ''stable_increasing'' tolerance \<and>
     \<not> check_trend polyfit s ''reducing_stable'' tolerance"
  by (simp add: check_trend_def)

theorem check_trend_short_series_witness:
  "length (dropna [(1, Some 5), (2, None)]) < 2 \<and>
   \<not> check_trend (\<lambda>ys. None) [(1, Some 5), (2, None)] ''increasing'' 0.05 \<and>
   \<not> check_trend (\<lambda>ys. None) [(1, Some 5), (2, None)] ''stable_increasing'' 0.05 \<and>
   \<not> check_trend (\<lambda>ys. None) [(1, Some 5), (2, None)] ''reducing_stable'' 0.05"
proof -
  have short: "length (dropna [(1, Some 5), (2, None)]) < 2" by simp
  show ?thesis
    using short check_trend_short_series [OF short, of "\<lambda>ys. None" "0.05"] by simp
qed

lemma length_chronological: "length (chronological s) = length (dropna s)"
  by (simp add: chronological_def sort_index_desc_def)

text \<open>Lines 885-912 on a series of two or more points, in terms of its chronological
  values.\<close>

lemma check_trend_increasing_unfold:
  assumes "2 \<le> length (chronological s)"
  shows "check_trend polyfit s ''increasing'' tol =
     (if last (chronological s) > hd (chronological s) then True
      else if (case polyfit (chronological s) of None \<Rightarrow> False | Some slope \<Rightarrow> slope > 0)
        then True
      else consistent_steps (chronological s) tol)"
proof -
  let ?v = "map snd (sort_index_desc (dropna s))"
  have len: "2 \<le> length (dropna s)" using assms by (simp add: length_chronological)
  have "length ?v = length (dropna s)" by (simp add: sort_index_desc_def)
  with len have ne: "?v \<noteq> []" by auto
  have "hd ?v = last (chronological s)" "last ?v = hd (chronological s)"
    using ne by (simp_all add: chronological_def last_rev hd_rev)
  with len show ?thesis
    by (auto simp: check_trend_def Let_def chronological_def)
qed

lemma sorted_wrt_less_hd_last:
  fixes ys :: "real list"
  assumes "sorted_wrt (<) ys" "2 \<le> length ys"
  shows "hd ys < last ys"
proof -
  have "ys ! 0 < ys ! (length ys - 1)"
    using assms sorted_wrt_nth_less[of "(<)" ys 0 "length ys - 1"] by simp
  moreover have "ys \<noteq> []" using assms by auto
  ultimately show ?thesis by (simp add: hd_conv_nth last_conv_nth)
qed

lemma sorted_wrt_greater_hd_last:
  fixes ys :: "real list"
  assumes "sorted_wrt (>) ys" "2 \<le> length ys"
  shows "last ys < hd ys"
proof -
  have "ys ! 0 > ys ! (length ys - 1)"
    using assms sorted_wrt_nth_less[of "(>)" ys 0 "length ys - 1"] by simp
  moreover have "ys \<noteq> []" using assms by auto
  ultimately show ?thesis by (simp add: hd_conv_nth last_conv_nth)
qed

text \<open>The loop of step 3 passes exactly when no step dips below the tolerance.\<close>

lemma consistent_steps_iff:
  "consistent_steps c tol \<longleftrightarrow> (\<forall>i. Suc i < length c \<longrightarrow> c ! i * (1 - tol) \<le> c ! Suc i)"
proof (induction c tol rule: consistent_steps.induct)
  case (1 p q rest tol)
  show ?case
  proof (cases "q < p * (1 - tol)")
    case True
    then have "\<not> (\<forall>i. Suc i < length (p # q # rest) \<longrightarrow>
        (p # q # rest) ! i * (1 - tol) \<le> (p # q # rest) ! Suc i)"
      by (auto intro!: exI[of _ 0])
    with True show ?thesis by simp
  next
    case False
    have "(\<forall>i. Suc i < length (p # q # rest) \<longrightarrow>
              (p # q # rest) ! i * (1 - tol) \<le> (p # q # rest) ! Suc i)
       \<longleftrightarrow> (\<forall>i. Suc i < length (q # rest) \<longrightarrow> (q # rest) ! i * (1 - tol) \<le> (q # rest) ! Suc i)"
      (is "?L \<longleftrightarrow> ?R")
    proof
      assume L: ?L
      show ?R
      proof (intro allI impI)
        fix i assume "Suc i < length (q # rest)"
        with L[rule_format, of "Suc i"]
        show "(q # rest) ! i * (1 - tol) \<le> (q # rest) ! Suc i" by simp
      qed
    next
      assume R: ?R
      show ?L
      proof (intro allI impI)
        fix i assume a: "Suc i < length (p # q # rest)"
        show "(p # q # rest) ! i * (1 - tol) \<le> (p # q # rest) ! Suc i"
        proof (cases i)
          case 0 with False show ?thesis by simp
        next
          case (Suc j) with a R[rule_format, of j] show ?thesis by simp
        qed
      qed
    qed
    with False 1 show ?thesis by simp
  qed
qed simp_all

text \<open>
  C1, as the claim states it, fails in its second half: the series 100, 99 (oldest
  first) falls strictly, yet step 3 accepts it, since 99 is not below 100 * 0.95. The
  slope numpy reports for it, -1, plays no part: a positive one would accept the series
  one step earlier.
\<close>

theorem check_trend_decreasing_passes:
  "2 \<le> length (chronological [(1, Some 100), (2, Some 99)]) \<and>
   sorted_wrt (>) (chronological [(1, Some 100), (2, Some 99)]) \<and>
   check_trend (\<lambda>ys. Some (- 1)) [(1, Some 100), (2, Some 99)] ''increasing'' default_tolerance"
  by (simp add: chronological_def check_trend_def sort_index_desc_def default_tolerance_def)

text \<open>
  C1 (amended): for the kind \<open>increasing\<close> with the default tolerance 0.05 and a series
  of at least 2 points, every strictly increasing series passes, whatever slope numpy
  reports. A strictly decreasing series is not always rejected: it passes exactly when
  the slope that \<^verbatim>\<open>np.polyfit\<close> reports for it is positive or no chronological step
  falls below the previous value times (1 - tolerance); in particular it passes
  whenever every step stays within that tolerance.
\<close>

theorem check_trend_increasing_monotone:
  assumes "2 \<le> length (chronological s)"
  shows "(sorted_wrt (<) (chronological s) \<longrightarrow>
            check_trend polyfit s ''increasing'' default_tolerance) \<and>
         (sorted_wrt (>) (chronological s) \<longrightarrow>
            (check_trend polyfit s ''increasing'' default_tolerance \<longleftrightarrow>
               (case polyfit (chronological s) of None \<Rightarrow> False | Some slope \<Rightarrow> slope > 0) \<or>
               (\<forall>i. Suc i < length (chronological s) \<longrightarrow>
                  chronological s ! i * (1 - default_tolerance) \<le> chronological s ! Suc i)))"
proof (intro conjI impI)
  assume "sorted_wrt (<) (chronological s)"
  then have "hd (chronological s) < last (chronological s)"
    using assms by (rule sorted_wrt_less_hd_last)
  then show "check_trend polyfit s ''increasing'' default_tolerance"
    by (simp add: check_trend_increasing_unfold[OF assms])
next
  assume dec: "sorted_wrt (>) (chronological s)"
  then have "last (chronological s) < hd (chronological s)"
    using assms by (rule sorted_wrt_greater_hd_last)
  then have "\<not> hd (chronological s) < last (chronological s)" by simp
  then show "check_trend polyfit s ''increasing'' default_tolerance \<longleftrightarrow>
               (case polyfit (chronological s) of None \<Rightarrow> False | Some slope \<Rightarrow> slope > 0) \<or>
               (\<forall>i. Suc i < length (chronological s) \<longrightarrow>
                  chronological s ! i * (1 - default_tolerance) \<le> chronological s ! Suc i)"
    unfolding check_trend_increasing_unfold[OF assms] consistent_steps_iff by auto
qed

text \<open>The witness: 100, 110, 120 passes; 100, 90, 80, for which numpy reports the slope
  -10, fails, its first step being below 95.\<close>

theorem check_trend_increasing_monotone_witness:
  "check_trend (\<lambda>ys. Some (- 10)) [(3, Some 120), (2, Some 110), (1, Some 100)]
     ''increasing'' default_tolerance \<and>
   \<not> check_trend (\<lambda>ys. Some (- 10)) [(3, Some 80), (2, Some 90), (1, Some 100)]
     ''increasing'' default_tolerance"
proof -
  let ?up = "[(3, Some 120), (2, Some 110), (1, Some (100::real))] :: series"
  let ?down = "[(3, Some 80), (2, Some 90), (1, Some (100::real))] :: series"
  have up: "chronological ?up = [100, 110, 120]"
    by (simp add: chronological_def sort_index_desc_def)
  have down: "chronological ?down = [100, 90, 80]"
    by (simp add: chronological_def sort_index_desc_def)
  have "check_trend (\<lambda>ys. Some (- 10)) ?up ''increasing'' default_tolerance"
    using check_trend_increasing_monotone [of ?up "\<lambda>ys. Some (- 10)"] by (simp add: up)
  moreover have "\<not> check_trend (\<lambda>ys. Some (- 10)) ?down ''increasing'' default_tolerance"
  proof -
    have "\<not> (\<forall>i. Suc i < length (chronological ?down) \<longrightarrow>
        chronological ?down ! i * (1 - default_tolerance) \<le> chronological ?down ! Suc i)"
      by (auto simp: down default_tolerance_def intro!: exI[of _ 0])
    then show ?thesis
      using check_trend_increasing_monotone [of ?down "\<lambda>ys. Some (- 10)"] by (simp add: down)
  qed
  ultimately show ?thesis by simp
qed

section \<open>Properties of the swing-low detector\<close>

lemma swing_loop_filter:
  "swing_loop lows w js = map ((!) lows) (filter (\<lambda>i. is_low_loop lows i [1..<w + 1]) js)"
  by (induction js) simp_all

lemma get_swing_lows_filter:
  "get_swing_lows lows w =
     map ((!) lows) (filter (\<lambda>i. is_low_loop lows i [1..<w + 1]) [w..<length lows - w])"
  by (simp add: get_swing_lows_def swing_loop_filter)

lemma get_swing_lows_short: "length lows < 2 * w + 1 \<Longrightarrow> get_swing_lows lows w = []"
  by (simp add: get_swing_lows_def)

lemma edge_not_reported:
  assumes k: "k < length lows" and edge: "k < w \<or> length lows - w \<le> k"
    and strict: "\<forall>i<length lows. i \<noteq> k \<longrightarrow> lows ! k < lows ! i"
  shows "lows ! k \<notin> set (get_swing_lows lows w)"
proof
  assume "lows ! k \<in> set (get_swing_lows lows w)"
  then obtain i where i: "w \<le> i" "i < length lows - w" "lows ! i = lows ! k"
    by (auto simp: get_swing_lows_filter)
  from i edge have "i \<noteq> k" by auto
  moreover from i have "i < length lows" by simp
  ultimately have "lows ! k < lows ! i" using strict by blast
  with i show False by simp
qed

text \<open>
  C10: with window \<open>w\<close> only the bars at positions \<open>w\<close> to \<open>length - w - 1\<close> are
  examined. A series of fewer than \<open>2 * w + 1\<close> bars gives the empty list; the result
  is the lows at the examined positions that pass the neighbour test; and a low among the
  first \<open>w\<close> or last \<open>w\<close> bars is not reported, even when it is the strict global
  minimum of the series.
\<close>

theorem get_swing_lows_interior_only:
  "(length lows < 2 * w + 1 \<longrightarrow> get_swing_lows lows w = []) \<and>
   get_swing_lows lows w =
     map ((!) lows) (filter (\<lambda>i. is_low_loop lows i [1..<w + 1]) [w..<length lows - w]) \<and>
   (\<forall>k<length lows. (k < w \<or> length lows - w \<le> k) \<and>
        (\<forall>i<length lows. i \<noteq> k \<longrightarrow> lows ! k < lows ! i)
      \<longrightarrow> lows ! k \<notin> set (get_swing_lows lows w))"
  using get_swing_lows_short get_swing_lows_filter edge_not_reported by blast

theorem get_swing_lows_interior_only_witness:
  "get_swing_lows [1, 2, 3, 4] 2 = [] \<and>
   get_swing_lows [0, 5, 4, 3, 2, 3, 4, 5, 1] 2 = [2] \<and>
   0 \<notin> set (get_swing_lows [0, 5, 4, 3, 2, 3, 4, 5, 1] 2)"
proof -
  have short: "get_swing_lows [1, 2, 3, 4] 2 = []"
    using get_swing_lows_interior_only [of "[1, 2, 3, 4]" 2] by simp
  have val: "get_swing_lows [0, 5, 4, 3, 2, 3, 4, 5, 1] 2 = [2]"
    by (simp add: get_swing_lows_def upt_rec)
  have "\<forall>i<length [0, 5, 4, 3, 2, 3, 4, 5, 1::real]. i \<noteq> 0 \<longrightarrow>
          [0, 5, 4, 3, 2, 3, 4, 5, 1::real] ! 0 < [0, 5, 4, 3, 2, 3, 4, 5, 1] ! i"
    by (simp add: less_Suc_eq nth_Cons')
  then have "[0, 5, 4, 3, 2, 3, 4, 5, 1::real] ! 0
      \<notin> set (get_swing_lows [0, 5, 4, 3, 2, 3, 4, 5, 1] 2)"
    using get_swing_lows_interior_only [of "[0, 5, 4, 3, 2, 3, 4, 5, 1]" 2] by simp
  with short val show ?thesis by simp
qed

section \<open>Properties of the support level merge\<close>

lemma within_band_pos:
  assumes "0 < price a"
  shows "within_band a b \<longleftrightarrow> \<bar>price a - price b\<bar> \<le> 0.015 * price a"
proof -
  have "\<bar>price a - price b\<bar> / price a \<le> 0.015 \<longleftrightarrow> \<bar>price a - price b\<bar> \<le> 0.015 * price a"
    using assms by (rule pos_divide_le_eq)
  with assms show ?thesis by (simp add: within_band_def)
qed

lemma within_band_neg:
  assumes "price a < 0"
  shows "within_band a b"
proof -
  have "\<bar>price a - price b\<bar> / price a \<le> 0"
    using assms by (intro divide_nonneg_neg) simp_all
  moreover have "(0::real) \<le> 0.015" by simp
  ultimately have "\<bar>price a - price b\<bar> / price a \<le> 0.015" by (rule order_trans)
  moreover have "price a \<noteq> 0" using assms by simp
  ultimately show ?thesis unfolding within_band_def by (simp only: if_False)
qed

lemma apart_lower:
  assumes "\<not> within_band u b" "price x \<le> price b" "price b \<le> price u"
  shows "\<not> within_band u x"
proof -
  consider "0 < price u" | "price u = 0" | "price u < 0" by linarith
  then show ?thesis
  proof cases
    case 1
    with assms(1) have "\<not> \<bar>price u - price b\<bar> \<le> 0.015 * price u"
      by (simp add: within_band_pos)
    with assms(2,3) have "\<not> \<bar>price u - price x\<bar> \<le> 0.015 * price u" by linarith
    with 1 show ?thesis by (simp add: within_band_pos)
  next
    case 2
    then show ?thesis by (simp add: within_band_def)
  next
    case 3
    with assms(1) show ?thesis by (simp add: within_band_neg)
  qed
qed

lemma merge_loop_apart:
  assumes "sorted_wrt apart uniq"
    and "\<forall>u\<in>set uniq. \<forall>x\<in>set (cur # rest). apart u x"
    and "sorted_wrt (\<lambda>a b. price b \<le> price a) (cur # rest)"
    and "merge_loop cur grp uniq rest = (cur', grp', uniq')"
  shows "sorted_wrt apart (uniq' @ [cur'])"
  using assms
proof (induction rest arbitrary: cur grp uniq)
  case Nil
  then show ?case by (auto simp: sorted_wrt_append)
next
  case (Cons nxt rest)
  show ?case
  proof (cases "within_band cur nxt")
    case True
    let ?c = "if score nxt > score cur then nxt else cur"
    have m: "merge_loop ?c (grp @ [nxt]) uniq rest = (cur', grp', uniq')"
      using Cons.prems(4) True by simp
    have a: "\<forall>u\<in>set uniq. \<forall>x\<in>set (?c # rest). apart u x"
      using Cons.prems(2) by auto
    have s: "sorted_wrt (\<lambda>a b. price b \<le> price a) (?c # rest)"
      using Cons.prems(3) by auto
    show ?thesis by (rule Cons.IH[OF Cons.prems(1) a s m])
  next
    case False
    have m: "merge_loop nxt [nxt] (uniq @ [cur]) rest = (cur', grp', uniq')"
      using Cons.prems(4) False by simp
    have u: "sorted_wrt apart (uniq @ [cur])"
      using Cons.prems(1,2) by (auto simp: sorted_wrt_append)
    have le: "price nxt \<le> price cur" "\<forall>x\<in>set rest. price x \<le> price nxt"
      using Cons.prems(3) by auto
    have "\<forall>x\<in>set (nxt # rest). apart cur x"
    proof
      fix x assume x: "x \<in> set (nxt # rest)"
      then have px: "price x \<le> price nxt" using le by auto
      from apart_lower[OF False px le(1)] px le(1) show "apart cur x"
        by (simp add: apart_def)
    qed
    then have a: "\<forall>u\<in>set (uniq @ [cur]). \<forall>x\<in>set (nxt # rest). apart u x"
      using Cons.prems(2) by auto
    have s: "sorted_wrt (\<lambda>a b. price b \<le> price a) (nxt # rest)"
      using Cons.prems(3) by auto
    show ?thesis by (rule Cons.IH[OF u a s m])
  qed
qed

lemma sorted_desc_sort_key:
  "sorted_wrt (\<lambda>a b. price b \<le> price a) (sort_key (\<lambda>c. - price c) cs)"
proof -
  have "sorted (map (\<lambda>c. - price c) (sort_key (\<lambda>c. - price c) cs))" by (rule sorted_sort_key)
  then show ?thesis by (simp add: sorted_map)
qed

lemma merge_support_levels_apart: "sorted_wrt apart (merge_support_levels cs)"
proof (cases "sort_key (\<lambda>c. - price c) cs")
  case Nil
  then show ?thesis by (simp add: merge_support_levels_def)
next
  case (Cons f rest)
  obtain c g u where m: "merge_loop f [f] [] rest = (c, g, u)" by (cases "merge_loop f [f] [] rest")
  have s: "sorted_wrt (\<lambda>a b. price b \<le> price a) (f # rest)"
    using sorted_desc_sort_key[of cs] Cons by simp
  have "sorted_wrt apart (u @ [c])"
    by (rule merge_loop_apart[OF _ _ s m]) simp_all
  then have "sorted_wrt apart (take 5 (u @ [c]))" by (rule sorted_wrt_take)
  with Cons m show ?thesis by (simp add: merge_support_levels_def)
qed

lemma merge_support_levels_length: "length (merge_support_levels cs) \<le> 5"
  by (auto simp: merge_support_levels_def split: list.splits prod.splits)

text \<open>
  C4: for every list of candidates the merged list has at most 5 levels, and of any two
  of them the later one is not higher than the earlier one and is not within 1.5% of it
  (the source's test, relative to the higher price); for a positive higher price the
  two differ by more than 1.5% of it.
\<close>

theorem merge_support_levels_distinct_levels:
  "length (merge_support_levels cs) \<le> 5 \<and>
   (\<forall>i j. i < j \<and> j < length (merge_support_levels cs) \<longrightarrow>
      price (merge_support_levels cs ! j) \<le> price (merge_support_levels cs ! i) \<and>
      \<not> within_band (merge_support_levels cs ! i) (merge_support_levels cs ! j) \<and>
      (0 < price (merge_support_levels cs ! i) \<longrightarrow>
         0.015 * price (merge_support_levels cs ! i)
           < price (merge_support_levels cs ! i) - price (merge_support_levels cs ! j)))"
proof (intro conjI allI impI)
  show "length (merge_support_levels cs) \<le> 5" by (rule merge_support_levels_length)
next
  fix i j assume ij: "i < j \<and> j < length (merge_support_levels cs)"
  then have ap: "apart (merge_support_levels cs ! i) (merge_support_levels cs ! j)"
    using sorted_wrt_nth_less[OF merge_support_levels_apart, of i j cs] by simp
  then show "price (merge_support_levels cs ! j) \<le> price (merge_support_levels cs ! i)"
    by (simp add: apart_def)
  from ap show "\<not> within_band (merge_support_levels cs ! i) (merge_support_levels cs ! j)"
    by (simp add: apart_def)
  assume "0 < price (merge_support_levels cs ! i)"
  then have "within_band (merge_support_levels cs ! i) (merge_support_levels cs ! j) \<longleftrightarrow>
      \<bar>price (merge_support_levels cs ! i) - price (merge_support_levels cs ! j)\<bar>
           \<le> 0.015 * price (merge_support_levels cs ! i)"
    by (rule within_band_pos)
  with ap have "price (merge_support_levels cs ! j) \<le> price (merge_support_levels cs ! i)"
    and "\<not> \<bar>price (merge_support_levels cs ! i) - price (merge_support_levels cs ! j)\<bar>
           \<le> 0.015 * price (merge_support_levels cs ! i)"
    unfolding apart_def by blast+
  then show "0.015 * price (merge_support_levels cs ! i)
           < price (merge_support_levels cs ! i) - price (merge_support_levels cs ! j)"
    by linarith
qed

theorem merge_support_levels_distinct_levels_witness:
  "map price (merge_support_levels
      [\<lparr>price = 99, source = ''Weekly'', reason = ''Weekly 50 SMA'', score = 6\<rparr>,
       \<lparr>price = 100, source = ''Daily'', reason = ''Daily 50 SMA'', score = 2\<rparr>,
       \<lparr>price = 90, source = ''Price Action'', reason = ''Horizontal Cluster'', score = 3\<rparr>])
     = [99, 90] \<and>
   \<not> within_band
      \<lparr>price = 99, source = ''Weekly'', reason = ''Weekly 50 SMA'', score = 6\<rparr>
      \<lparr>price = 90, source = ''Price Action'', reason = ''Horizontal Cluster'', score = 3\<rparr>"
proof -
  let ?cs = "[\<lparr>price = 99, source = ''Weekly'', reason = ''Weekly 50 SMA'', score = 6\<rparr>,
       \<lparr>price = 100, source = ''Daily'', reason = ''Daily 50 SMA'', score = 2\<rparr>,
       \<lparr>price = 90, source = ''Price Action'', reason = ''Horizontal Cluster'', score = 3\<rparr>]"
  have out: "merge_support_levels ?cs =
      [\<lparr>price = 99, source = ''Weekly'', reason = ''Weekly 50 SMA'', score = 6\<rparr>,
       \<lparr>price = 90, source = ''Price Action'', reason = ''Horizontal Cluster'', score = 3\<rparr>]"
    by (simp add: merge_support_levels_def within_band_def)
  have "(0::nat) < 1 \<and> 1 < length (merge_support_levels ?cs)" by (simp add: out)
  then have "\<not> within_band (merge_support_levels ?cs ! 0) (merge_support_levels ?cs ! 1)"
    using merge_support_levels_distinct_levels [of ?cs] by blast
  then show ?thesis by (simp add: out)
qed

section \<open>Properties of the composite scorer\<close>

lemma lookup_name_fixed: "list_all (\<lambda>n. lookup_name n = n) criterion_names"
  by (simp add: criterion_names_def lookup_name_def)

lemma lookup_name_known: "n \<in> set criterion_names \<Longrightarrow> lookup_name n = n"
  using lookup_name_fixed by (simp add: list_all_iff)

lemma score_criteria_names: "c \<in> set (score_criteria polyfit x) \<Longrightarrow> c_name c \<in> set criterion_names"
  by (auto simp: score_criteria_def income_criterion_def ccc_criterion_def gearing_criterion_def
      criterion_names_def Let_def split: if_splits)

lemma score_loop_sums:
  "score_loop w cs (t, m) =
     (t + sum_list (map (\<lambda>c. weight_get w (lookup_name (c_name c))) (filter (\<lambda>c. c_status c = ''Pass'') cs)),
      m + sum_list (map (\<lambda>c. weight_get w (lookup_name (c_name c))) cs))"
  by (induction cs arbitrary: t m) (simp_all add: Let_def)

lemma weights_nonneg:
  "0 \<le> weight_get weights_reit k" "0 \<le> weight_get weights_ccc k" "0 \<le> weight_get weights_standard k"
  by (simp_all add: weight_get_def weights_reit_def weights_ccc_def weights_standard_def)

lemma current_weights_nonneg: "0 \<le> weight_get (current_weights x) k"
  by (simp add: current_weights_def weights_nonneg)

lemma sum_filter_le:
  fixes f :: "'a \<Rightarrow> int"
  assumes "\<And>c. 0 \<le> f c"
  shows "sum_list (map f (filter P cs)) \<le> sum_list (map f cs)"
  by (induction cs) (auto simp: assms add_increasing)

text \<open>
  C6: for every archetype and every outcome of the criteria (whatever slopes numpy
  reports to the trend checks), the total score is at most
  the max score, and the max score is the sum, over the criteria appended to the list,
  of the weight the selected table gives to the criterion's name (0 for a name the
  table does not hold).
\<close>

theorem composite_score_bounded:
  "fst (composite_score polyfit x) \<le> snd (composite_score polyfit x) \<and>
   snd (composite_score polyfit x) =
     sum_list (map (\<lambda>c. weight_get (current_weights x) (c_name c)) (score_criteria polyfit x))"
proof
  show "fst (composite_score polyfit x) \<le> snd (composite_score polyfit x)"
    unfolding composite_score_def score_loop_sums
    using sum_filter_le[of "\<lambda>c. weight_get (current_weights x) (lookup_name (c_name c))"]
    by (simp add: current_weights_nonneg)
  have "map (\<lambda>c. weight_get (current_weights x) (lookup_name (c_name c))) (score_criteria polyfit x)
      = map (\<lambda>c. weight_get (current_weights x) (c_name c)) (score_criteria polyfit x)"
    by (rule map_cong) (simp_all add: lookup_name_known score_criteria_names)
  then have "sum_list (map (\<lambda>c. weight_get (current_weights x) (lookup_name (c_name c))) (score_criteria polyfit x))
      = sum_list (map (\<lambda>c. weight_get (current_weights x) (c_name c)) (score_criteria polyfit x))"
    by (rule arg_cong)
  then show "snd (composite_score polyfit x) =
     sum_list (map (\<lambda>c. weight_get (current_weights x) (c_name c)) (score_criteria polyfit x))"
    by (simp add: composite_score_def score_loop_sums)
qed

text \<open>The witnesses below score a company whose net incomes 100, 90, 80 are the only
  series to reach the slope test; numpy reports the slope -10 for them.\<close>

theorem composite_score_bounded_witness:
  "composite_score (\<lambda>ys. Some (- 10))
     \<lparr>trend_pass = True,
      net_income_trend = [(3, Some 80), (2, Some 90), (1, Some 100)],
      op_income_trend = [(3, Some 120), (2, Some 110), (1, Some 100)],
      op_cash_flow_trend = [(3, Some 120), (2, Some 110), (1, Some 100)],
      revenue_trend = [(3, Some 120), (2, Some 110), (1, Some 100)],
      gross_margin_trend = [(3, Some 40), (2, Some 41), (1, Some 42)],
      net_margin_trend = [], roe_ttm = 0.2, roic = 0.1, rev_ar_pass = True,
      has_physical_goods = True, ccc_series = [(3, Some 30), (2, Some 40)],
      moat_pass = True, debt_to_ebitda = Some 2, debt_servicing_ratio = None,
      current_ratio = Some 2, is_reit = False, gearing_ratio = None\<rparr> = (84, 105)"
proof -
  let ?x = "\<lparr>trend_pass = True,
      net_income_trend = [(3, Some 80), (2, Some 90), (1, Some 100)],
      op_income_trend = [(3, Some 120), (2, Some 110), (1, Some 100)],
      op_cash_flow_trend = [(3, Some 120), (2, Some 110), (1, Some 100)],
      revenue_trend = [(3, Some 120), (2, Some 110), (1, Some 100)],
      gross_margin_trend = [(3, Some 40), (2, Some 41), (1, Some 42)],
      net_margin_trend = [], roe_ttm = 0.2, roic = 0.1, rev_ar_pass = True,
      has_physical_goods = True, ccc_series = [(3, Some 30), (2, Some 40)],
      moat_pass = True, debt_to_ebitda = Some 2, debt_servicing_ratio = None,
      current_ratio = Some 2, is_reit = False, gearing_ratio = None\<rparr>"
  have "composite_score (\<lambda>ys. Some (- 10)) ?x = (84, 105)"
    by (simp add: composite_score_def score_criteria_def income_criterion_def
        ccc_criterion_def gearing_criterion_def current_weights_def weights_ccc_def
        weight_get_def lookup_name_def pass_fail_def check_trend_def sort_index_desc_def
        default_tolerance_def)
  with composite_score_bounded [of "\<lambda>ys. Some (- 10)" ?x] show ?thesis by simp
qed

text \<open>
  C9: the criteria list holds exactly one criterion named Net Income Increasing or
  Operating Income Increasing; the operating-income one is there exactly when the
  net-income trend check fails and the operating-income trend check passes, and the
  net-income one otherwise.
\<close>

theorem income_criterion_exclusive:
  "length (filter (\<lambda>c. c_name c = ''Net Income Increasing'' \<or> c_name c = ''Operating Income Increasing'')
       (score_criteria polyfit x)) = 1 \<and>
   ((\<exists>c\<in>set (score_criteria polyfit x). c_name c = ''Operating Income Increasing'') \<longleftrightarrow>
      (\<not> check_trend polyfit (net_income_trend x) ''increasing'' default_tolerance \<and>
       check_trend polyfit (op_income_trend x) ''increasing'' default_tolerance)) \<and>
   ((\<exists>c\<in>set (score_criteria polyfit x). c_name c = ''Net Income Increasing'') \<longleftrightarrow>
      \<not> (\<not> check_trend polyfit (net_income_trend x) ''increasing'' default_tolerance \<and>
       check_trend polyfit (op_income_trend x) ''increasing'' default_tolerance))"
  by (auto simp: score_criteria_def income_criterion_def ccc_criterion_def gearing_criterion_def Let_def)

theorem income_criterion_exclusive_witness:
  "(\<exists>c\<in>set (score_criteria (\<lambda>ys. Some (- 10))
     \<lparr>trend_pass = True,
      net_income_trend = [(3, Some 80), (2, Some 90), (1, Some 100)],
      op_income_trend = [(3, Some 120), (2, Some 110), (1, Some 100)],
      op_cash_flow_trend = [(3, Some 120), (2, Some 110), (1, Some 100)],
      revenue_trend = [(3, Some 120), (2, Some 110), (1, Some 100)],
      gross_margin_trend = [(3, Some 40), (2, Some 41), (1, Some 42)],
      net_margin_trend = [], roe_ttm = 0.2, roic = 0.1, rev_ar_pass = True,
      has_physical_goods = True, ccc_series = [(3, Some 30), (2, Some 40)],
      moat_pass = True, debt_to_ebitda = Some 2, debt_servicing_ratio = None,
      current_ratio = Some 2, is_reit = False, gearing_ratio = None\<rparr>).
       c_name c = ''Operating Income Increasing'') \<and>
   \<not> check_trend (\<lambda>ys. Some (- 10)) [(3, Some 80), (2, Some 90), (1, Some 100)] ''increasing'' default_tolerance \<and>
   check_trend (\<lambda>ys. Some (- 10)) [(3, Some 120), (2, Some 110), (1, Some 100)] ''increasing'' default_tolerance"
proof -
  let ?x = "\<lparr>trend_pass = True,
      net_income_trend = [(3, Some 80), (2, Some 90), (1, Some 100)],
      op_income_trend = [(3, Some 120), (2, Some 110), (1, Some 100)],
      op_cash_flow_trend = [(3, Some 120), (2, Some 110), (1, Some 100)],
      revenue_trend = [(3, Some 120), (2, Some 110), (1, Some 100)],
      gross_margin_trend = [(3, Some 40), (2, Some 41), (1, Some 42)],
      net_margin_trend = [], roe_ttm = 0.2, roic = 0.1, rev_ar_pass = True,
      has_physical_goods = True, ccc_series = [(3, Some 30), (2, Some 40)],
      moat_pass = True, debt_to_ebitda = Some 2, debt_servicing_ratio = None,
      current_ratio = Some 2, is_reit = False, gearing_ratio = None\<rparr>"
  have ni: "\<not> check_trend (\<lambda>ys. Some (- 10)) (net_income_trend ?x) ''increasing'' default_tolerance"
    by (simp add: check_trend_def sort_index_desc_def default_tolerance_def)
  have oi: "check_trend (\<lambda>ys. Some (- 10)) (op_income_trend ?x) ''increasing'' default_tolerance"
    by (simp add: check_trend_def sort_index_desc_def default_tolerance_def)
  from ni oi have "\<exists>c\<in>set (score_criteria (\<lambda>ys. Some (- 10)) ?x). c_name c = ''Operating Income Increasing''"
    using income_criterion_exclusive [of "\<lambda>ys. Some (- 10)" ?x] by blast
  with ni oi show ?thesis by simp
qed

section \<open>Properties of the intrinsic value estimator\<close>

lemma finalize_status:
  "res_status (finalize m p iv a) = ''Overvalued'' \<or>
   res_status (finalize m p iv a) = ''Undervalued'' \<or>
   res_status (finalize m p iv a) = ''Fairly Valued''"
  by (simp add: finalize_def Let_def)

lemma calculate_body_cases:
  "(\<exists>e. calculate_body t i f b c r n oc g be = Inl e) \<or>
   calculate_body t i f b c r n oc g be = Inr (error_result ''N/A'') \<or>
   (\<exists>m p iv a. calculate_body t i f b c r n oc g be = Inr (finalize m p iv a))"
  unfolding calculate_body_def Let_def
  by (auto split: sum.splits prod.splits)

lemma calculate_intrinsic_value_cases:
  "calculate_intrinsic_value t i f b c r n oc g be = error_result ''Error'' \<or>
   calculate_intrinsic_value t i f b c r n oc g be = error_result ''N/A'' \<or>
   (\<exists>m p iv a. calculate_intrinsic_value t i f b c r n oc g be = finalize m p iv a)"
proof -
  consider (raised) e where "calculate_body t i f b c r n oc g be = Inl e"
    | (guarded) "calculate_body t i f b c r n oc g be = Inr (error_result ''N/A'')"
    | (valued) m p iv a where "calculate_body t i f b c r n oc g be = Inr (finalize m p iv a)"
    using calculate_body_cases[of t i f b c r n oc g be] by blast
  then show ?thesis
  proof cases
    case raised
    then show ?thesis by (simp add: calculate_intrinsic_value_def)
  next
    case guarded
    then show ?thesis by (simp add: calculate_intrinsic_value_def)
  next
    case valued
    then have "calculate_intrinsic_value t i f b c r n oc g be = finalize m p iv a"
      by (simp add: calculate_intrinsic_value_def)
    then show ?thesis by blast
  qed
qed

lemma guard_error:
  assumes "info_currentPrice i = None \<or> info_currentPrice i = Some 0 \<or>
           info_sharesOutstanding i = Some 0"
  shows "calculate_intrinsic_value t i f b c r n oc g be = error_result ''N/A''"
  using assms unfolding calculate_intrinsic_value_def calculate_body_def Let_def
  by (auto split: option.splits)

text \<open>
  C2, as the claim states it, fails: the guard of line 184 tests for a falsy price or
  share count, and a negative price is truthy. A bank priced at -5 with book value 10
  and price-to-book 2 is valued at 20 and reported Undervalued.
\<close>

theorem negative_price_not_rejected:
  "(- 5::real) \<le> 0 \<and>
   res_status (calculate_intrinsic_value ''BANK''
      \<lparr>info_currentPrice = Some (- 5), info_sharesOutstanding = Some 100,
        info_sector = Some ''Financial Services'', info_industry = Some ''Banks - Regional'',
        info_country = None, info_bookValue = Some 10, info_priceToBook = Some 2\<rparr>
      [] [] [] [] [] [] [] None) = ''Undervalued'' \<and>
   res_intrinsicValue (calculate_intrinsic_value ''BANK''
      \<lparr>info_currentPrice = Some (- 5), info_sharesOutstanding = Some 100,
        info_sector = Some ''Financial Services'', info_industry = Some ''Banks - Regional'',
        info_country = None, info_bookValue = Some 10, info_priceToBook = Some 2\<rparr>
      [] [] [] [] [] [] [] None) = Fin 20"
  by (simp add: calculate_intrinsic_value_def calculate_body_def select_method_def method_of_def
     is_financial_company_def pb_valuation_def finalize_def pf_sub_def pf_lt_def country_of_def)

text \<open>
  C2 (amended): the function returns the zero-valued Error result (method N/A) whenever
  the current price is missing or zero or the shares outstanding are zero; an exception
  raised in its body is turned into the zero-valued Error result (method Error); and for
  every input the result is a result dictionary whose status is one of Error,
  Overvalued, Undervalued and Fairly Valued, with intrinsic value 0, difference 0 and
  no assumptions whenever the status is Error.
\<close>

theorem calculate_intrinsic_value_failure_policy:
  "(info_currentPrice i = None \<or> info_currentPrice i = Some 0 \<or>
      info_sharesOutstanding i = Some 0 \<longrightarrow>
      calculate_intrinsic_value t i f b c r n oc g be = error_result ''N/A'') \<and>
   (\<forall>e. calculate_body t i f b c r n oc g be = Inl e \<longrightarrow>
      calculate_intrinsic_value t i f b c r n oc g be = error_result ''Error'') \<and>
   res_status (calculate_intrinsic_value t i f b c r n oc g be)
     \<in> {''Error'', ''Overvalued'', ''Undervalued'', ''Fairly Valued''} \<and>
   (res_status (calculate_intrinsic_value t i f b c r n oc g be) = ''Error'' \<longrightarrow>
      res_intrinsicValue (calculate_intrinsic_value t i f b c r n oc g be) = Fin 0 \<and>
      res_differencePercent (calculate_intrinsic_value t i f b c r n oc g be) = Fin 0 \<and>
      res_assumptions (calculate_intrinsic_value t i f b c r n oc g be) = [])"
proof (intro conjI)
  show "info_currentPrice i = None \<or> info_currentPrice i = Some 0 \<or>
      info_sharesOutstanding i = Some 0 \<longrightarrow>
      calculate_intrinsic_value t i f b c r n oc g be = error_result ''N/A''"
    using guard_error by blast
  show "\<forall>e. calculate_body t i f b c r n oc g be = Inl e \<longrightarrow>
      calculate_intrinsic_value t i f b c r n oc g be = error_result ''Error''"
    by (simp add: calculate_intrinsic_value_def)
  show "res_status (calculate_intrinsic_value t i f b c r n oc g be)
     \<in> {''Error'', ''Overvalued'', ''Undervalued'', ''Fairly Valued''}"
  proof -
    consider "calculate_intrinsic_value t i f b c r n oc g be = error_result ''Error''"
      | "calculate_intrinsic_value t i f b c r n oc g be = error_result ''N/A''"
      | m p iv a where "calculate_intrinsic_value t i f b c r n oc g be = finalize m p iv a"
      using calculate_intrinsic_value_cases[of t i f b c r n oc g be] by blast
    then show ?thesis
    proof cases
      case 1 then show ?thesis by (simp add: error_result_def)
    next
      case 2 then show ?thesis by (simp add: error_result_def)
    next
      case 3
      with finalize_status[of m p iv a] show ?thesis by auto
    qed
  qed
  show "res_status (calculate_intrinsic_value t i f b c r n oc g be) = ''Error'' \<longrightarrow>
      res_intrinsicValue (calculate_intrinsic_value t i f b c r n oc g be) = Fin 0 \<and>
      res_differencePercent (calculate_intrinsic_value t i f b c r n oc g be) = Fin 0 \<and>
      res_assumptions (calculate_intrinsic_value t i f b c r n oc g be) = []"
  proof
    assume err: "res_status (calculate_intrinsic_value t i f b c r n oc g be) = ''Error''"
    have "\<not> (\<exists>m p iv a. calculate_intrinsic_value t i f b c r n oc g be = finalize m p iv a)"
    proof
      assume "\<exists>m p iv a. calculate_intrinsic_value t i f b c r n oc g be = finalize m p iv a"
      then obtain m p iv a where "calculate_intrinsic_value t i f b c r n oc g be = finalize m p iv a"
        by blast
      with err finalize_status[of m p iv a] show False by simp
    qed
    with calculate_intrinsic_value_cases[of t i f b c r n oc g be]
    show "res_intrinsicValue (calculate_intrinsic_value t i f b c r n oc g be) = Fin 0 \<and>
      res_differencePercent (calculate_intrinsic_value t i f b c r n oc g be) = Fin 0 \<and>
      res_assumptions (calculate_intrinsic_value t i f b c r n oc g be) = []"
      by (auto simp: error_result_def)
  qed
qed

theorem calculate_intrinsic_value_failure_policy_witness:
  "calculate_intrinsic_value ''BANK''
      \<lparr>info_currentPrice = Some 0, info_sharesOutstanding = Some 100,
        info_sector = Some ''Financial Services'', info_industry = Some ''Banks - Regional'',
        info_country = None, info_bookValue = Some 10, info_priceToBook = Some 2\<rparr>
      [] [] [] [] [] [] [] None = error_result ''N/A'' \<and>
   calculate_intrinsic_value ''BANK''
      \<lparr>info_currentPrice = Some 40, info_sharesOutstanding = Some 100,
        info_sector = Some ''Financial Services'', info_industry = Some ''Banks - Regional'',
        info_country = None, info_bookValue = None, info_priceToBook = Some 2\<rparr>
      [] [] [] [] [] [] [] None = error_result ''Error''"
proof -
  let ?zero = "\<lparr>info_currentPrice = Some 0, info_sharesOutstanding = Some 100,
        info_sector = Some ''Financial Services'', info_industry = Some ''Banks - Regional'',
        info_country = None, info_bookValue = Some 10, info_priceToBook = Some 2\<rparr>"
  let ?nobook = "\<lparr>info_currentPrice = Some 40, info_sharesOutstanding = Some 100,
        info_sector = Some ''Financial Services'', info_industry = Some ''Banks - Regional'',
        info_country = None, info_bookValue = None, info_priceToBook = Some 2\<rparr>"
  have "calculate_intrinsic_value ''BANK'' ?zero [] [] [] [] [] [] [] None = error_result ''N/A''"
    using calculate_intrinsic_value_failure_policy [of ?zero "''BANK''" "[]" "[]" "[]" "[]" "[]" "[]" "[]" None]
    by simp
  moreover have "calculate_body ''BANK'' ?nobook [] [] [] [] [] [] [] None = Inl TypeError"
    by (simp add: calculate_body_def select_method_def method_of_def
     is_financial_company_def pb_valuation_def country_of_def)
  then have "calculate_intrinsic_value ''BANK'' ?nobook [] [] [] [] [] [] [] None = error_result ''Error''"
    using calculate_intrinsic_value_failure_policy [of ?nobook "''BANK''" "[]" "[]" "[]" "[]" "[]" "[]" "[]" None]
    by blast
  ultimately show ?thesis by simp
qed












lemma clamp_Fin: "py_min (py_max (Fin x) (Fin (- 0.10))) (Fin 0.30) = Fin (min (max x (- 0.10)) 0.30)"
  by (simp add: py_min_def py_max_def pf_lt_def min_def max_def)

lemma clamp_PInf: "py_min (py_max PInf (Fin (- 0.10))) (Fin 0.30) = Fin 0.30"
  by (simp add: py_min_def py_max_def pf_lt_def)

lemma clamp_NInf: "py_min (py_max NInf (Fin (- 0.10))) (Fin 0.30) = Fin (- 0.10)"
  by (simp add: py_min_def py_max_def pf_lt_def)

lemma clamp_NaN: "py_min (py_max NaN (Fin (- 0.10))) (Fin 0.30) = NaN"
  by (simp add: py_min_def py_max_def pf_lt_def)

lemma growth_rate_1_5_range:
  "growth_rate_1_5_of ge ni = NaN \<or>
   (\<exists>g. growth_rate_1_5_of ge ni = Fin g \<and> - 0.10 \<le> g \<and> g \<le> 0.30)"
proof (cases "raw_growth_rate_1_5 ge ni")
  case (Fin x)
  have "- 0.10 \<le> min (max x (- 0.10)) (0.30::real)" "min (max x (- 0.10)) (0.30::real) \<le> 0.30"
    by simp_all
  then show ?thesis unfolding growth_rate_1_5_of_def Fin clamp_Fin by blast
next
  case PInf
  have "- 0.10 \<le> (0.30::real)" by simp
  then show ?thesis unfolding growth_rate_1_5_of_def PInf clamp_PInf by blast
next
  case NInf
  have "- 0.10 \<le> (0.30::real)" by simp
  then show ?thesis unfolding growth_rate_1_5_of_def NInf clamp_NInf by blast
next
  case NaN
  show ?thesis unfolding growth_rate_1_5_of_def NaN clamp_NaN by simp
qed

lemma pf_mul_NaN_right: "pf_mul v NaN = NaN"
  by (cases v) simp_all

lemma pf_add_NaN_right: "pf_add v NaN = NaN"
  by (cases v) simp_all

lemma grow_NaN_rate: "grow n v NaN = replicate n NaN"
  by (induction n arbitrary: v) (simp_all add: Let_def pf_mul_NaN_right)

lemma grow_NaN_start: "grow n NaN r = replicate n NaN"
  by (induction n) (simp_all add: Let_def)

lemma discount_loop_NaN_sum: "discount_loop dr i vs NaN = NaN"
  by (induction vs arbitrary: i) (simp_all add: Let_def)

lemma discount_loop_NaN_head: "discount_loop dr i (NaN # vs) acc = NaN"
  by (simp add: Let_def pf_add_NaN_right discount_loop_NaN_sum)

text \<open>
  C7 at the inputs where the cap of line 316 lets a NaN through. With no growth
  estimates and the net incomes -5, 10, 10, 10 (newest first) the historical rate is
  the fourth root of -0.5, a NaN; an estimate labelled Next 5 Years whose trend is NaN
  gives a NaN as well. \<^verbatim>\<open>min(max(nan, -0.10), 0.30)\<close> is NaN, so the rate of years 1-5
  is not within -10% and 30%, and the valuation that uses it is NaN and reported
  Fairly Valued.
\<close>

theorem growth_rate_1_5_nan_escapes_cap:
  "growth_rate_1_5_of [] [- 5, 10, 10, 10] = NaN \<and>
   growth_rate_1_5_of [\<lparr>period = ''Next 5 Years (per annum)'', stock_trend = Some NaN\<rparr>] [] = NaN \<and>
   res_intrinsicValue (calculate_intrinsic_value ''X''
      \<lparr>info_currentPrice = Some 50, info_sharesOutstanding = Some 10,
        info_sector = Some ''Technology'', info_industry = Some ''Software'',
        info_country = None, info_bookValue = None, info_priceToBook = None\<rparr>
      [] [] [] [100, 100, 100, 100] [- 5, 10, 10, 10] [20, 18, 16, 14] [] (Some 1.1)) = NaN \<and>
   res_status (calculate_intrinsic_value ''X''
      \<lparr>info_currentPrice = Some 50, info_sharesOutstanding = Some 10,
        info_sector = Some ''Technology'', info_industry = Some ''Software'',
        info_country = None, info_bookValue = None, info_priceToBook = None\<rparr>
      [] [] [] [100, 100, 100, 100] [- 5, 10, 10, 10] [20, 18, 16, 14] [] (Some 1.1)) = ''Fairly Valued''"
proof -
  let ?i = "\<lparr>info_currentPrice = Some 50, info_sharesOutstanding = Some 10,
        info_sector = Some ''Technology'', info_industry = Some ''Software'',
        info_country = None, info_bookValue = None, info_priceToBook = None\<rparr>"
  have g: "growth_rate_1_5_of [] [- 5, 10, 10, 10] = NaN"
    by (simp add: growth_rate_1_5_of_def raw_growth_rate_1_5_def py_min_def py_max_def
        pf_sub_def pf_lt_def)
  have ge: "growth_rate_1_5_of
      [\<lparr>period = ''Next 5 Years (per annum)'', stock_trend = Some NaN\<rparr>] [] = NaN"
    by (simp add: growth_rate_1_5_of_def raw_growth_rate_1_5_def py_min_def py_max_def pf_lt_def)
  have m: "select_method ?i [100, 100, 100, 100] [- 5, 10, 10, 10] [20, 18, 16, 14]
      = ''Discounted Free Cash Flow (DFCF)''"
    by (simp add: select_method_def method_of_def is_financial_company_def is_consistent_def
        rev_cagr_of_def pf_sub_def current_of_def)
  have d: "dcf_valuation ''Discounted Free Cash Flow (DFCF)'' [] (- 5) 20 NaN NaN g3 dr c td 10
        = (NaN, 
               [(''Current Free Cash Flow'', Number (Fin (20 / 10 ^ 9))),
                (''Growth Rate (Yr 1-5)'', Number NaN),
                (''Growth Rate (Yr 6-10)'', Number NaN),
                (''Growth Rate (Yr 11-20)'', Number (Fin (g3 * 100))),
                (''Discount Rate'', Number (Fin (dr * 100))),
                (''Total Debt'', Number (Fin (td / 10 ^ 9))),
                (''Cash & Equivalents'', Number (Fin (c / 10 ^ 9))),
                (''Shares Outstanding'', Number (Fin (10 / 10 ^ 9)))])" for g3 dr c td
    by (simp add: dcf_valuation_def base_metric_def capex_of_def grow_NaN_rate grow_NaN_start
        last_or_def pf_sub_def Let_def numeral_eq_Suc discount_loop_NaN_head)
  have "calculate_intrinsic_value ''X'' ?i [] [] [] [100, 100, 100, 100] [- 5, 10, 10, 10]
          [20, 18, 16, 14] [] (Some 1.1)
      = finalize ''Discounted Free Cash Flow (DFCF)'' 50 NaN 
               [(''Current Free Cash Flow'', Number (Fin (20 / 10 ^ 9))),
                (''Growth Rate (Yr 1-5)'', Number NaN),
                (''Growth Rate (Yr 6-10)'', Number NaN),
                (''Growth Rate (Yr 11-20)'', Number (Fin (growth_rate_11_20_of (country_of ?i) * 100))),
                (''Discount Rate'', Number (Fin (discount_rate_of (Some 1.1) (country_of ?i) * 100))),
                (''Total Debt'', Number (Fin (total_debt_of [] / 10 ^ 9))),
                (''Cash & Equivalents'', Number (Fin (cash_and_equivalents_of [] / 10 ^ 9))),
                (''Shares Outstanding'', Number (Fin (10 / 10 ^ 9)))]"
    unfolding calculate_intrinsic_value_def calculate_body_def Let_def m g
    by (simp add: growth_rate_6_10_of_def py_min_def pf_lt_def current_of_def d)
  then show ?thesis using g ge by (simp add: finalize_def pf_sub_def pf_lt_def)
qed

end
